theory Spec2Isabelle
  imports Main
begin

section \<open>Go primitives used by the load-test runner\<close>

text \<open>
  A Go panic is modelled as a value: the left injection of a sum carries the panic message,
  the right injection the normal result.
\<close>

type_synonym panic = string

text \<open>
  \<open>int64\<close> arithmetic wraps around in two's complement. \<open>time.Duration\<close> and the result of
  \<open>Time.UnixNano\<close> are \<open>int64\<close> counts of nanoseconds.
\<close>

definition wrap64 :: "int \<Rightarrow> int" where
  "wrap64 x = (x + 2 ^ 63) mod 2 ^ 64 - 2 ^ 63"

definition is_int64 :: "int \<Rightarrow> bool" where
  "is_int64 x = (- (2 ^ 63) \<le> x \<and> x < 2 ^ 63)"

text \<open>Go's \<open>/\<close> and \<open>%\<close> on integers truncate towards zero and panic on a zero divisor.\<close>

definition go_quo :: "int \<Rightarrow> int \<Rightarrow> panic + int" where
  "go_quo a b =
     (if b = 0 then Inl ''runtime error: integer divide by zero''
      else Inr (wrap64 (sgn a * sgn b * (\<bar>a\<bar> div \<bar>b\<bar>))))"

definition go_rem :: "int \<Rightarrow> int \<Rightarrow> panic + int" where
  "go_rem a b =
     (if b = 0 then Inl ''runtime error: integer divide by zero''
      else Inr (sgn a * (\<bar>a\<bar> mod \<bar>b\<bar>)))"

text \<open>
  \<open>rand.Int63n(n)\<close> and \<open>rand.Intn(n)\<close> of math/rand panic when \<open>n \<le> 0\<close>; otherwise they
  return the accepted raw draw of the generator reduced modulo \<open>n\<close>. The raw draw is an
  input of the model.
\<close>

definition Int63n :: "int \<Rightarrow> nat \<Rightarrow> panic + int" where
  "Int63n n raw =
     (if n \<le> 0 then Inl ''invalid argument to Int63n'' else Inr (int raw mod n))"

definition Intn :: "int \<Rightarrow> nat \<Rightarrow> panic + int" where
  "Intn n raw =
     (if n \<le> 0 then Inl ''invalid argument to Intn'' else Inr (int raw mod n))"

text \<open>
  A \<open>time.Time\<close> is modelled by its count of nanoseconds since the Unix epoch; its range
  is wider than \<open>int64\<close>, so \<open>Time.Add\<close> does not wrap. \<open>Time.Sub\<close> returns a
  \<open>Duration\<close> and saturates at the largest and smallest \<open>int64\<close>.
\<close>

definition Time_Add :: "int \<Rightarrow> int \<Rightarrow> int" where
  "Time_Add t d = t + d"

definition Time_Before :: "int \<Rightarrow> int \<Rightarrow> bool" where
  "Time_Before t u = (t < u)"

definition Time_Sub :: "int \<Rightarrow> int \<Rightarrow> int" where
  "Time_Sub t u =
     (if t - u \<ge> 2 ^ 63 then 2 ^ 63 - 1
      else if t - u < - (2 ^ 63) then - (2 ^ 63)
      else t - u)"

section \<open>runEntity: the time of the first action\<close>

text \<open>
  Lines 125 to 131 of \<open>runEntity\<close>. \<open>now\<close> is \<open>time.Now().UnixNano()\<close>, \<open>rate\<close> is
  \<open>ec.ActionRate\<close> (\<open>time.Nanosecond\<close> is 1, so \<open>ec.ActionRate/time.Nanosecond\<close> is the
  rate itself), \<open>raw\<close> is the draw behind \<open>rand.Int63n\<close>.
\<close>

definition intervalStart :: "int \<Rightarrow> int \<Rightarrow> panic + int" where
  "intervalStart now rate =
     (case go_rem now rate of
        Inl p \<Rightarrow> Inl p
      | Inr m \<Rightarrow> Inr (wrap64 (now - m)))"

definition firstStart :: "int \<Rightarrow> int \<Rightarrow> nat \<Rightarrow> panic + int" where
  "firstStart now rate raw =
     (case intervalStart now rate of
        Inl p \<Rightarrow> Inl p
      | Inr i \<Rightarrow>
          (case Int63n rate raw of
             Inl p \<Rightarrow> Inl p
           | Inr u \<Rightarrow>
               (let start = Time_Add i u
                in Inr (if Time_Before start now then Time_Add start rate else start))))"

definition firstDelay :: "int \<Rightarrow> int \<Rightarrow> nat \<Rightarrow> panic + int" where
  "firstDelay now rate raw =
     (case firstStart now rate raw of
        Inl p \<Rightarrow> Inl p
      | Inr start \<Rightarrow> Inr (Time_Sub start now))"

section \<open>runEntity: re-arming the timer\<close>

text \<open>
  Lines 145 to 147. \<open>variance\<close> is the \<open>int\<close> read from
  \<open>ActionRateMaxVarianceMilliseconds\<close>; the constant \<open>2.0\<close> is converted to the integer 2,
  so the division is an integer division. Both conversions to \<open>time.Duration\<close> keep the
  number and read it as nanoseconds.
\<close>

definition halfVarianceDuration :: "int \<Rightarrow> panic + int" where
  "halfVarianceDuration variance = go_quo variance 2"

definition randomDurationWithinVariance :: "int \<Rightarrow> nat \<Rightarrow> panic + int" where
  "randomDurationWithinVariance variance raw = Intn variance raw"

definition rearmDuration :: "int \<Rightarrow> int \<Rightarrow> nat \<Rightarrow> panic + int" where
  "rearmDuration rate variance raw =
     (case halfVarianceDuration variance of
        Inl p \<Rightarrow> Inl p
      | Inr h \<Rightarrow>
          (case randomDurationWithinVariance variance raw of
             Inl p \<Rightarrow> Inl p
           | Inr r \<Rightarrow> Inr (wrap64 (wrap64 (rate + r) - h))))"

section \<open>Weighted choice of the next action\<close>

text \<open>
  A \<open>randutil.Choice\<close> pairs a weight with an item. The items of \<open>ec.EntityActions\<close> are
  expected to be functions on the entity; the type assertion in line 144 panics on any
  other item. A function is identified by a number.
\<close>

datatype item = Func nat | NotFunc

record Choice =
  Weight :: int
  Item :: item

datatype selection_error = SelectionError

text \<open>
  Modelled from the spec: \<open>randutil.WeightedChoice\<close> belongs to this repository but is not
  among the sources at hand. The specification says that it draws one item from the
  weighted list by a weighted-random algorithm and fails with a selection error if the
  list is empty or the total weight is not positive. The total weight is the sum of the
  weights; the draw \<open>r\<close> below the total selects the first item at which the running sum
  of the weights exceeds \<open>r\<close>.
\<close>

definition total_weight :: "Choice list \<Rightarrow> int" where
  "total_weight choices = sum_list (map Weight choices)"

fun pick :: "Choice list \<Rightarrow> int \<Rightarrow> Choice option" where
  "pick [] r = None"
| "pick (c # cs) r = (if r - Weight c < 0 then Some c else pick cs (r - Weight c))"

text \<open>
  Modelled from the spec: the failure of \<open>randutil.WeightedChoice\<close> on an empty list or a
  non-positive total weight, and otherwise the weighted draw. \<open>raw\<close> is the random draw.
\<close>

definition WeightedChoice :: "Choice list \<Rightarrow> nat \<Rightarrow> selection_error + Choice" where
  "WeightedChoice choices raw =
     (if choices = [] \<or> total_weight choices \<le> 0 then Inl SelectionError
      else (case pick choices (int raw mod total_weight choices) of
              None \<Rightarrow> Inl SelectionError
            | Some c \<Rightarrow> Inr c))"

section \<open>runEntity: the scheduler loop and its supervisor\<close>

text \<open>
  The fields of \<open>EntityConfig\<close> that \<open>runEntity\<close> reads. The variance is read through
  \<open>ec.LoadTestConfig.UserEntitiesConfiguration\<close>; the pointers on that path are taken to
  be set.
\<close>

record EntityConfig =
  EntityActions :: "Choice list"
  ActionRate :: int
  ActionRateMaxVarianceMilliseconds :: int

text \<open>
  What one wake-up of the \<open>select\<close> in line 135 delivers: the stop channel, or the timer
  together with the draw for the weighted choice, what the chosen action does (it returns,
  or panics with a value), and the draw for the jitter.
\<close>

datatype event = Stop | Fire nat "panic option" nat

text \<open>
  One run of the function body: the clock and the draw at its start, and the wake-ups it
  sees. A body whose wake-ups are used up stays blocked in the \<open>select\<close>.
\<close>

record incarnation =
  now_ns :: int
  start_raw :: nat
  events :: "event list"

text \<open>
  The state the runner acts on: the counter of the shared \<open>sync.WaitGroup\<close> with the value
  it took after every \<open>Add\<close> and \<open>Done\<close> (oldest first), the error log, the functions
  invoked, the durations given to \<open>time.NewTimer\<close> and \<open>timer.Reset\<close>, the number of
  respawned goroutines, and the panic that ended the process if one escaped.
\<close>

record run_state =
  wg :: int
  wg_hist :: "int list"
  logged :: "string list"
  performed :: "nat list"
  timers :: "int list"
  respawned :: nat
  fatal :: "panic option"

datatype outcome = Returned | Panicked panic | Blocked

text \<open>\<open>WaitGroup.Add\<close> stores the new counter and then panics if it is negative.\<close>

definition WaitGroup_Add :: "int \<Rightarrow> run_state \<Rightarrow> panic option \<times> run_state" where
  "WaitGroup_Add delta s =
     (let v = wg s + delta
      in (if v < 0 then Some ''sync: negative WaitGroup counter'' else None,
          s\<lparr>wg := v, wg_hist := wg_hist s @ [v]\<rparr>))"

definition WaitGroup_Done :: "run_state \<Rightarrow> panic option \<times> run_state" where
  "WaitGroup_Done s = WaitGroup_Add (- 1) s"

text \<open>Lines 134 to 149: the \<open>for\<close>/\<open>select\<close> loop.\<close>

fun scheduler_loop :: "EntityConfig \<Rightarrow> event list \<Rightarrow> run_state \<Rightarrow> outcome \<times> run_state" where
  "scheduler_loop ec [] s = (Blocked, s)"
| "scheduler_loop ec (Stop # es) s = (Returned, s)"
| "scheduler_loop ec (Fire choice_raw result jitter_raw # es) s =
     (case WeightedChoice (EntityActions ec) choice_raw of
        Inl err \<Rightarrow> (Returned, s\<lparr>logged := logged s @ [''Failed to pick weighted choice'']\<rparr>)
      | Inr action \<Rightarrow>
          (case Item action of
             NotFunc \<Rightarrow> (Panicked ''interface conversion: interface is not func(*EntityConfig)'', s)
           | Func f \<Rightarrow>
               (let s1 = s\<lparr>performed := performed s @ [f]\<rparr>
                in case result of
                     Some p \<Rightarrow> (Panicked p, s1)
                   | None \<Rightarrow>
                       (case rearmDuration (ActionRate ec)
                               (ActionRateMaxVarianceMilliseconds ec) jitter_raw of
                          Inl p \<Rightarrow> (Panicked p, s1)
                        | Inr d \<Rightarrow> scheduler_loop ec es (s1\<lparr>timers := timers s1 @ [d]\<rparr>)))))"

text \<open>Lines 122 to 149: the body of \<open>runEntity\<close> below its two \<open>defer\<close> statements.\<close>

definition runEntity_body :: "EntityConfig \<Rightarrow> incarnation \<Rightarrow> run_state \<Rightarrow> outcome \<times> run_state" where
  "runEntity_body ec inc s =
     (case firstDelay (now_ns inc) (ActionRate ec) (start_raw inc) of
        Inl p \<Rightarrow> (Panicked p, s)
      | Inr delay \<Rightarrow> scheduler_loop ec (events inc) (s\<lparr>timers := timers s @ [delay]\<rparr>))"

text \<open>
  Lines 112 to 120 around the body. Deferred calls run last-in first-out when the body
  returns or panics: first \<open>ec.StopWaitGroup.Done()\<close> of line 120, then the closure of
  lines 113 to 119, which recovers the panic in flight (that of the body, or that of
  \<open>Done\<close>), logs it, adds one to the counter and starts \<open>runEntity\<close> again in a new
  goroutine. The new goroutine runs the next incarnation. A panic of \<open>Add\<close> inside the
  closure is not recovered and ends the process.
\<close>

fun runEntity :: "EntityConfig \<Rightarrow> incarnation list \<Rightarrow> run_state \<Rightarrow> run_state" where
  "runEntity ec [] s = s"
| "runEntity ec (inc # incs) s =
     (case runEntity_body ec inc s of
        (Blocked, s1) \<Rightarrow> s1
      | (out, s1) \<Rightarrow>
          (case WaitGroup_Done s1 of
             (pd, s2) \<Rightarrow>
               (case (case pd of
                        Some p \<Rightarrow> Some p
                      | None \<Rightarrow> (case out of Panicked p \<Rightarrow> Some p | _ \<Rightarrow> None)) of
                  None \<Rightarrow> s2
                | Some r \<Rightarrow>
                    (case WaitGroup_Add 1 (s2\<lparr>logged := logged s2 @ [''Recovered: '' @ r]\<rparr>) of
                       (Some q, s3) \<Rightarrow> s3\<lparr>fatal := Some q\<rparr>
                     | (None, s3) \<Rightarrow> runEntity ec incs (s3\<lparr>respawned := Suc (respawned s3)\<rparr>)))))"

section \<open>websocketListen\<close>

text \<open>
  The listener is a machine over the two places where it meets its environment: the
  \<open>select\<close> of line 185 and one pass through the retry loop of lines 191 to 208.
\<close>

datatype ws_pc = Listening | Reconnecting | Finished

datatype chan_status = NoEvent | Event | Closed

text \<open>
  What the environment presents at a step: whether a receive from \<open>ec.StopChannel\<close> can
  proceed, what \<open>EventChannel\<close> holds, which case the \<open>select\<close> takes when both can
  proceed (Go chooses at random), what \<open>Connect()\<close> returns if it is called, and the
  value of \<open>ListenError\<close>.
\<close>

record ws_in =
  stop_ready :: bool
  event_chan :: chan_status
  select_takes_stop :: bool
  connect_err :: "string option"
  listen_error :: "string option"

text \<open>
  The state: the place in the code, the local \<open>websocketRetryCount\<close>, the durations
  passed to \<open>time.Sleep\<close> in nanoseconds, the result of every \<open>Connect()\<close> call
  (\<open>True\<close> for nil), the number of \<open>Listen()\<close> calls, the error log and the number of
  calls of the deferred \<open>ec.StopWaitGroup.Done()\<close>.
\<close>

record ws_state =
  pc :: ws_pc
  websocketRetryCount :: int
  slept :: "int list"
  connects :: "bool list"
  listens :: nat
  ws_logged :: "string list"
  done_calls :: nat

definition Second :: int where
  "Second = 1000000000"

text \<open>
  Lines 174 to 182: the deferred \<open>Done\<close>, the return on a nil client, the first
  \<open>Listen()\<close> and the counter set to 0. \<open>client\<close> says that \<open>ec.WebSocketClient\<close> is
  not nil.
\<close>

definition websocketListen_start :: "bool \<Rightarrow> ws_state" where
  "websocketListen_start client =
     (if \<not> client
      then \<lparr>pc = Finished, websocketRetryCount = 0, slept = [], connects = [], listens = 0,
            ws_logged = [], done_calls = 1\<rparr>
      else \<lparr>pc = Listening, websocketRetryCount = 0, slept = [], connects = [], listens = 1,
            ws_logged = [], done_calls = 0\<rparr>)"

text \<open>Returning runs the deferred \<open>Done\<close>.\<close>

definition ws_return :: "ws_state \<Rightarrow> ws_state" where
  "ws_return s = s\<lparr>pc := Finished, done_calls := Suc (done_calls s)\<rparr>"

text \<open>
  Lines 185 to 190: with no case ready the \<open>select\<close> blocks; the stop case returns; a
  received event is dropped; a closed event channel enters the retry loop.
\<close>

definition select_step :: "ws_in \<Rightarrow> ws_state \<Rightarrow> ws_state" where
  "select_step i s =
     (if stop_ready i \<and> (event_chan i = NoEvent \<or> select_takes_stop i) then ws_return s
      else (case event_chan i of
              NoEvent \<Rightarrow> s
            | Event \<Rightarrow> s
            | Closed \<Rightarrow> s\<lparr>pc := Reconnecting\<rparr>))"

text \<open>Lines 192 to 207: one pass through the retry loop.\<close>

definition retry_step :: "ws_in \<Rightarrow> ws_state \<Rightarrow> ws_state" where
  "retry_step i s =
     (if websocketRetryCount s > 5
      then ws_return
             (s\<lparr>ws_logged := ws_logged s @
                  [(case listen_error i of
                      Some e \<Rightarrow> ''Websocket Error: '' @ e
                    | None \<Rightarrow> ''Server closed websocket''),
                   ''Websocket disconneced. Max retries reached.'']\<rparr>)
      else (let s1 = s\<lparr>slept := slept s @ [websocketRetryCount s * Second]\<rparr>
            in case connect_err i of
                 Some err \<Rightarrow>
                   s1\<lparr>connects := connects s1 @ [False],
                      websocketRetryCount := websocketRetryCount s1 + 1\<rparr>
               | None \<Rightarrow>
                   s1\<lparr>connects := connects s1 @ [True], listens := Suc (listens s1),
                      pc := Listening\<rparr>))"

definition ws_step :: "ws_in \<Rightarrow> ws_state \<Rightarrow> ws_state" where
  "ws_step i s =
     (case pc s of
        Listening \<Rightarrow> select_step i s
      | Reconnecting \<Rightarrow> retry_step i s
      | Finished \<Rightarrow> s)"

fun ws_run :: "ws_in list \<Rightarrow> ws_state \<Rightarrow> ws_state" where
  "ws_run [] s = s"
| "ws_run (i # is) s = ws_run is (ws_step i s)"

definition websocketListen :: "bool \<Rightarrow> ws_in list \<Rightarrow> ws_state" where
  "websocketListen client ins = ws_run ins (websocketListen_start client)"

section \<open>The cluster coordinator\<close>

text \<open>
  A Go \<open>error\<close> is \<open>None\<close> for nil. \<open>errors.Wrap\<close> of github.com/pkg/errors annotates an
  error with a message and returns nil when the error it is given is nil.
\<close>

datatype error = Err string | Wrapped error string

definition errors_Wrap :: "error option \<Rightarrow> string \<Rightarrow> error option" where
  "errors_Wrap err message =
     (case err of None \<Rightarrow> None | Some e \<Rightarrow> Some (Wrapped e message))"

text \<open>
  The package path/filepath on a Unix system: the separator is the slash and there are no
  volume names. \<open>split_slash\<close> gives the elements between the separators and
  \<open>join_slash\<close> is \<open>strings.Join\<close> with a slash.
\<close>

fun split_slash :: "string \<Rightarrow> string list" where
  "split_slash [] = [[]]"
| "split_slash (c # cs) =
     (if c = CHR ''/'' then [] # split_slash cs
      else (case split_slash cs of
              [] \<Rightarrow> [[c]]
            | e # es \<Rightarrow> (c # e) # es))"

fun join_slash :: "string list \<Rightarrow> string" where
  "join_slash [] = []"
| "join_slash [e] = e"
| "join_slash (e # es) = e @ ''/'' @ join_slash es"

text \<open>
  The loop of \<open>filepath.Clean\<close> over the elements of the path, with the elements written
  so far in \<open>out\<close>: an empty element and a dot are dropped; two dots remove the last
  element written if it is not itself two dots, are kept at the front of a path that is
  not rooted, and are dropped at the front of a rooted path; any other element is
  written.
\<close>

fun clean_elems :: "bool \<Rightarrow> string list \<Rightarrow> string list \<Rightarrow> string list" where
  "clean_elems rooted out [] = out"
| "clean_elems rooted out (e # es) =
     (if e = [] \<or> e = ''.'' then clean_elems rooted out es
      else if e = ''..''
      then (if out \<noteq> [] \<and> last out \<noteq> ''..'' then clean_elems rooted (butlast out) es
            else if \<not> rooted then clean_elems rooted (out @ [''..'']) es
            else clean_elems rooted out es)
      else clean_elems rooted (out @ [e]) es)"

text \<open>
  \<open>filepath.Clean\<close>: the empty path becomes a dot; a rooted path keeps its leading slash;
  an empty result becomes a dot.
\<close>

definition filepath_Clean :: "string \<Rightarrow> string" where
  "filepath_Clean path =
     (if path = [] then ''.''
      else (let rooted = (hd path = CHR ''/'');
                out = (if rooted then ''/'' else [])
                      @ join_slash (clean_elems rooted [] (split_slash path))
            in if out = [] then ''.'' else out))"

text \<open>
  \<open>filepath.Join\<close> joins the elements from the first non-empty one on with slashes and
  cleans the result; with no non-empty element it returns the empty string.
  \<open>filepath.Dir\<close> cleans the path up to and including its last slash.
\<close>

definition filepath_Join :: "string list \<Rightarrow> string" where
  "filepath_Join elem =
     (case dropWhile (\<lambda>e. e = []) elem of
        [] \<Rightarrow> []
      | es \<Rightarrow> filepath_Clean (join_slash es))"

definition filepath_Dir :: "string \<Rightarrow> string" where
  "filepath_Dir path = filepath_Clean (rev (dropWhile (\<lambda>c. c \<noteq> CHR ''/'') (rev path)))"

text \<open>
  The cluster: its working directory, and what \<open>GetLoadtestInstancesAddrs\<close> and
  \<open>GetAppInstancesAddrs\<close> return (these two methods are not among the sources; their
  results are parameters).
\<close>

record Cluster =
  WorkingDirectory :: string
  LoadtestInstancesAddrs :: "string list \<times> error option"
  AppInstancesAddrs :: "string list \<times> error option"

text \<open>
  The outside world: the combined output and the error of running a command line, and
  the errors of \<open>os.MkdirAll\<close> and \<open>os.Create\<close>.
\<close>

record Env =
  run_cmd :: "string list \<Rightarrow> string \<times> error option"
  mkdir_all :: "string \<Rightarrow> error option"
  create :: "string \<Rightarrow> error option"

text \<open>
  What a run does, in order: commands executed, directories and files created, goroutines
  started for a pod (with the flag: output mirrored to the results stream), sleeps in
  nanoseconds, and errors logged. Informational log lines are not recorded.
\<close>

datatype effect =
    Exec "string list"
  | MkdirAll string
  | Create string
  | Go string bool
  | Sleep int
  | LogError error

text \<open>Lines 15 to 40. \<open>mirror\<close> says that \<open>resultsOutput\<close> is not nil.\<close>

definition loadtestPod :: "Cluster \<Rightarrow> Env \<Rightarrow> string \<Rightarrow> bool \<Rightarrow> error option \<times> effect list" where
  "loadtestPod c env pod mirror =
     (let commandOutputFile =
            filepath_Join [WorkingDirectory c, ''results'', ''loadtest-out-'' @ pod @ ''.txt''];
          dir = filepath_Dir commandOutputFile
      in case mkdir_all env dir of
           Some err \<Rightarrow> (errors_Wrap (Some err) ''unable to create results directory.'', [MkdirAll dir])
         | None \<Rightarrow>
             (case create env commandOutputFile of
                Some err \<Rightarrow>
                  (errors_Wrap (Some err) ''unable to create loadtest results file.'',
                   [MkdirAll dir, Create commandOutputFile])
              | None \<Rightarrow>
                  (let cmd = [''kubectl'', ''exec'', pod, ''./bin/loadtest'', ''all'']
                   in (snd (run_cmd env cmd),
                       [MkdirAll dir, Create commandOutputFile, Exec cmd]))))"

text \<open>Lines 42 to 66: the four commands of the bulk load.\<close>

definition genbulkload_cmd :: "string \<Rightarrow> string list" where
  "genbulkload_cmd loadtestPod_name =
     [''kubectl'', ''exec'', loadtestPod_name, ''./bin/loadtest'', ''genbulkload'']"

definition copy_out_cmd :: "Cluster \<Rightarrow> string \<Rightarrow> string list" where
  "copy_out_cmd c loadtestPod_name =
     [''kubectl'', ''cp'', loadtestPod_name @ '':/mattermost-load-test/loadtestbulkload.json'',
      WorkingDirectory c]"

definition copy_in_cmd :: "Cluster \<Rightarrow> string \<Rightarrow> string list" where
  "copy_in_cmd c appPod =
     [''kubectl'', ''cp'', filepath_Join [WorkingDirectory c, ''loadtestbulkload.json''],
      appPod @ '':/mattermost/'']"

definition import_cmd :: "string \<Rightarrow> string list" where
  "import_cmd appPod =
     [''kubectl'', ''exec'', appPod, ''--'', ''./bin/platform'', ''import'', ''bulk'',
      ''--workers'', ''64'', ''--apply'', ''./loadtestbulkload.json'']"

definition bulkLoad :: "Cluster \<Rightarrow> Env \<Rightarrow> string \<Rightarrow> string \<Rightarrow> error option \<times> effect list" where
  "bulkLoad c env loadtestPod_name appPod =
     (case snd (run_cmd env (genbulkload_cmd loadtestPod_name)) of
        Some err \<Rightarrow> (Some err, [Exec (genbulkload_cmd loadtestPod_name)])
      | None \<Rightarrow>
     (case snd (run_cmd env (copy_out_cmd c loadtestPod_name)) of
        Some err \<Rightarrow>
          (Some err, [Exec (genbulkload_cmd loadtestPod_name), Exec (copy_out_cmd c loadtestPod_name)])
      | None \<Rightarrow>
     (case snd (run_cmd env (copy_in_cmd c appPod)) of
        Some err \<Rightarrow>
          (Some err, [Exec (genbulkload_cmd loadtestPod_name), Exec (copy_out_cmd c loadtestPod_name),
                      Exec (copy_in_cmd c appPod)])
      | None \<Rightarrow>
     (case run_cmd env (import_cmd appPod) of
        (out, err) \<Rightarrow>
          ((case err of
              Some e \<Rightarrow> errors_Wrap (Some e) (''bulk import failed: '' @ out)
            | None \<Rightarrow> None),
           [Exec (genbulkload_cmd loadtestPod_name), Exec (copy_out_cmd c loadtestPod_name),
            Exec (copy_in_cmd c appPod), Exec (import_cmd appPod)])))))"

text \<open>
  Lines 87 to 103: one goroutine per pod, the first one mirrored, and ten seconds of sleep
  after each start. The work of a goroutine is placed right after its start; it runs
  concurrently with what follows, but never before its own \<open>go\<close> statement.
\<close>

fun fan_out :: "Cluster \<Rightarrow> Env \<Rightarrow> bool \<Rightarrow> nat \<Rightarrow> string list \<Rightarrow> effect list" where
  "fan_out c env mirror i [] = []"
| "fan_out c env mirror i (pod # pods) =
     (case loadtestPod c env pod (i = 0 \<and> mirror) of
        (err, effects) \<Rightarrow>
          Go pod (i = 0 \<and> mirror) # effects
          @ (case err of Some e \<Rightarrow> [LogError e] | None \<Rightarrow> [])
          @ Sleep (Second * 10) # fan_out c env mirror (Suc i) pods)"

text \<open>Lines 68 to 109. The indexing \<open>[0]\<close> happens behind the length checks.\<close>

definition Loadtest :: "Cluster \<Rightarrow> Env \<Rightarrow> bool \<Rightarrow> error option \<times> effect list" where
  "Loadtest c env mirror =
     (case LoadtestInstancesAddrs c of
        (loadtestPods, err) \<Rightarrow>
          if err \<noteq> None \<or> int (length loadtestPods) \<le> 0
          then (errors_Wrap err ''unable to get loadtest pods'', [])
          else (case AppInstancesAddrs c of
                  (appPods, err) \<Rightarrow>
                    if err \<noteq> None \<or> int (length appPods) \<le> 0
                    then (errors_Wrap err ''unable to get app pods'', [])
                    else (case bulkLoad c env (loadtestPods ! 0) (appPods ! 0) of
                            (Some err, effects) \<Rightarrow> (Some err, effects)
                          | (None, effects) \<Rightarrow>
                              (None, effects @ fan_out c env mirror 0 loadtestPods))))"

section \<open>Scenarios and observations\<close>

text \<open>The number of failed \<open>Connect()\<close> calls so far.\<close>

definition failed_connects :: "ws_state \<Rightarrow> int" where
  "failed_connects s = int (length (filter Not (connects s)))"

text \<open>The two lines logged when the retries are used up (lines 193 to 198).\<close>

definition death_log :: "string option \<Rightarrow> string list" where
  "death_log e =
     [(case e of Some m \<Rightarrow> ''Websocket Error: '' @ m | None \<Rightarrow> ''Server closed websocket''),
      ''Websocket disconneced. Max retries reached.'']"

text \<open>
  Inputs of the listener: the event channel found closed with no stop signal; a refused
  connection with no stop signal; a refused connection while the stop signal is raised; an
  accepted connection.
\<close>

definition channel_closed :: ws_in where
  "channel_closed =
     \<lparr>stop_ready = False, event_chan = Closed, select_takes_stop = False,
      connect_err = None, listen_error = None\<rparr>"

definition connect_refused :: ws_in where
  "connect_refused =
     \<lparr>stop_ready = False, event_chan = NoEvent, select_takes_stop = False,
      connect_err = Some ''connection refused'', listen_error = Some ''EOF''\<rparr>"

definition stop_raised_connect_refused :: ws_in where
  "stop_raised_connect_refused =
     \<lparr>stop_ready = True, event_chan = NoEvent, select_takes_stop = True,
      connect_err = Some ''connection refused'', listen_error = None\<rparr>"

definition connect_accepted :: ws_in where
  "connect_accepted =
     \<lparr>stop_ready = False, event_chan = NoEvent, select_takes_stop = False,
      connect_err = None, listen_error = None\<rparr>"

text \<open>
  Incarnations of the runner: one whose first action panics with \<open>p\<close>, and one that
  receives the stop signal.
\<close>

definition crash_inc :: "int \<Rightarrow> nat \<Rightarrow> nat \<Rightarrow> panic \<Rightarrow> nat \<Rightarrow> incarnation" where
  "crash_inc now raw c p j = \<lparr>now_ns = now, start_raw = raw, events = [Fire c (Some p) j]\<rparr>"

definition stop_inc :: "int \<Rightarrow> nat \<Rightarrow> incarnation" where
  "stop_inc now raw = \<lparr>now_ns = now, start_raw = raw, events = [Stop]\<rparr>"

text \<open>The pods for which a goroutine was started, in order.\<close>

fun started :: "effect list \<Rightarrow> string list" where
  "started [] = []"
| "started (Go pod m # es) = pod # started es"
| "started (e # es) = started es"

text \<open>The four commands of the bulk load in the order of \<open>bulkLoad\<close>.\<close>

definition bulk_cmds :: "Cluster \<Rightarrow> string \<Rightarrow> string \<Rightarrow> string list list" where
  "bulk_cmds c w a = [genbulkload_cmd w, copy_out_cmd c w, copy_in_cmd c a, import_cmd a]"

text \<open>
  A cluster of three workers and one target, a world in which every command succeeds, and
  one in which the copy from the worker fails.
\<close>

definition three_workers :: Cluster where
  "three_workers =
     \<lparr>WorkingDirectory = ''/work/'',
      LoadtestInstancesAddrs = ([''w0'', ''w1'', ''w2''], None),
      AppInstancesAddrs = ([''app0''], None)\<rparr>"

definition all_succeed :: Env where
  "all_succeed =
     \<lparr>run_cmd = (\<lambda>cmd. ([], None)), mkdir_all = (\<lambda>d. None), create = (\<lambda>f. None)\<rparr>"

definition copy_out_fails :: Env where
  "copy_out_fails =
     \<lparr>run_cmd = (\<lambda>cmd. if cmd = copy_out_cmd three_workers ''w0''
                          then ([], Some (Err ''exit status 1'')) else ([], None)),
      mkdir_all = (\<lambda>d. None), create = (\<lambda>f. None)\<rparr>"

section \<open>Arithmetic of the timing\<close>

lemma wrap64_id: "is_int64 x \<Longrightarrow> wrap64 x = x"
proof -
  assume a: "is_int64 x"
  have "0 \<le> x + 2 ^ 63" "x + 2 ^ 63 < (2 ^ 64 :: int)"
    using a by (simp_all add: is_int64_def)
  then have "(x + 2 ^ 63) mod 2 ^ 64 = x + 2 ^ 63"
    by (rule mod_pos_pos_trivial)
  then show ?thesis by (simp add: wrap64_def)
qed

lemma jitter_arith:
  fixes m h v rate :: int
  assumes "0 \<le> m" "m < v" "2 * h \<le> v" "v - 1 \<le> 2 * h"
  shows "2 * rate - v \<le> 2 * (rate + m - h)" "2 * (rate + m - h) \<le> 2 * rate + v"
    "\<bar>(rate + m - h) - rate\<bar> < v"
  using assms by (simp_all add: algebra_simps)

lemma rearmDuration_value:
  assumes "0 < v" "is_int64 (rate - v)" "is_int64 (rate + v)"
  shows "rearmDuration rate v raw = Inr (rate + int raw mod v - v div 2)"
proof -
  have v64: "is_int64 (v div 2)" using assms by (auto simp: is_int64_def)
  have h: "halfVarianceDuration v = Inr (v div 2)"
    using assms v64 by (simp add: halfVarianceDuration_def go_quo_def wrap64_id)
  have r: "randomDurationWithinVariance v raw = Inr (int raw mod v)"
    using assms by (simp add: randomDurationWithinVariance_def Intn_def)
  have b: "0 \<le> int raw mod v" "int raw mod v < v" using assms by simp_all
  have a1: "is_int64 (rate + int raw mod v)" using assms b by (auto simp: is_int64_def)
  have a2: "is_int64 (rate + int raw mod v - v div 2)" using assms b by (auto simp: is_int64_def)
  show ?thesis using h r a1 a2 by (simp add: rearmDuration_def wrap64_id)
qed

section \<open>The first firing of an entity\<close>



section \<open>The re-armed timer\<close>



text \<open>
  Claim C9. For a variance \<open>v > 0\<close> (configured as a count of milliseconds) and every
  draw, the duration given to \<open>timer.Reset\<close> is the rate plus the draw reduced modulo
  \<open>v\<close> minus \<open>v div 2\<close>, all in nanoseconds: it differs from the rate by less than \<open>v\<close>
  nanoseconds, a window one millionth of \<open>v\<close> milliseconds.
\<close>

theorem rearm_deviation_below_variance_nanoseconds:
  assumes "0 < v" "is_int64 (rate - v)" "is_int64 (rate + v)"
  shows "\<exists>d. rearmDuration rate v raw = Inr d \<and> d = rate + int raw mod v - v div 2
    \<and> \<bar>d - rate\<bar> < v \<and> 1000000 * \<bar>d - rate\<bar> < v * 1000000"
proof -
  define d where "d = rate + int raw mod v - v div 2"
  have b: "0 \<le> int raw mod v" "int raw mod v < v" using assms by simp_all
  have h: "2 * (v div 2) \<le> v" "v - 1 \<le> 2 * (v div 2)" by presburger+
  have "\<bar>d - rate\<bar> < v"
    unfolding d_def by (rule jitter_arith(3)[OF b h])
  then show ?thesis using rearmDuration_value[OF assms, of raw] unfolding d_def by simp
qed

theorem rearm_deviation_below_variance_nanoseconds_witness:
  "(0::int) < 100 \<and> is_int64 (1000000000 - 100) \<and> is_int64 (1000000000 + 100) \<and>
   (\<exists>d. rearmDuration 1000000000 100 99 = Inr d \<and> d = 1000000000 + int 99 mod 100 - 100 div 2
    \<and> \<bar>d - 1000000000\<bar> < 100 \<and> 1000000 * \<bar>d - 1000000000\<bar> < 100 * 1000000)"
  using rearm_deviation_below_variance_nanoseconds [of 100 1000000000 99]
  by (simp add: is_int64_def)

section \<open>The supervisor and the completion counter\<close>

text \<open>The scheduler loop and the body never touch the counter.\<close>

lemma scheduler_loop_wg:
  "scheduler_loop ec es s = (out, s') \<Longrightarrow>
   wg s' = wg s \<and> wg_hist s' = wg_hist s \<and> respawned s' = respawned s \<and> fatal s' = fatal s"
proof (induction es arbitrary: s)
  case Nil
  then show ?case by simp
next
  case (Cons e es)
  show ?case
  proof (cases e)
    case Stop
    then show ?thesis using Cons.prems by simp
  next
    case (Fire choice_raw result jitter_raw)
    show ?thesis
    proof (cases "WeightedChoice (EntityActions ec) choice_raw")
      case (Inl err)
      then show ?thesis using Cons.prems Fire by auto
    next
      case (Inr action)
      note choice = this
      show ?thesis
      proof (cases "Item action")
        case NotFunc
        then show ?thesis using Cons.prems Fire choice by auto
      next
        case (Func f)
        show ?thesis
        proof (cases result)
          case (Some p)
          then show ?thesis using Cons.prems Fire choice Func by auto
        next
          case None
          show ?thesis
          proof (cases "rearmDuration (ActionRate ec) (ActionRateMaxVarianceMilliseconds ec) jitter_raw")
            case (Inl p)
            then show ?thesis using Cons.prems Fire choice Func None by auto
          next
            case (Inr d)
            let ?s1 = "s\<lparr>performed := performed s @ [f], timers := timers s @ [d]\<rparr>"
            have "scheduler_loop ec es ?s1 = (out, s')"
              using Cons.prems Fire choice Func None Inr by (simp add: Let_def)
            from Cons.IH[OF this] show ?thesis by simp
          qed
        qed
      qed
    qed
  qed
qed

lemma runEntity_body_wg:
  "runEntity_body ec inc s = (out, s') \<Longrightarrow>
   wg s' = wg s \<and> wg_hist s' = wg_hist s \<and> respawned s' = respawned s \<and> fatal s' = fatal s"
  by (auto simp: runEntity_body_def split: sum.splits dest: scheduler_loop_wg)

text \<open>
  A crash: the counter first goes down by one (the deferred \<open>Done\<close>), then up by one (the
  \<open>Add\<close> in the recovering closure), and the next incarnation starts.
\<close>

lemma runEntity_crash_cycle:
  assumes "runEntity_body ec inc s = (Panicked p, s1)" "0 < wg s"
  shows "runEntity ec (inc # incs) s =
           runEntity ec incs (s1\<lparr>wg_hist := wg_hist s @ [wg s - 1, wg s],
                                 logged := logged s1 @ [''Recovered: '' @ p],
                                 respawned := Suc (respawned s)\<rparr>)"
proof -
  from runEntity_body_wg[OF assms(1)]
  have eq: "wg s1 = wg s" "wg_hist s1 = wg_hist s" "respawned s1 = respawned s"
    by simp_all
  have st: "s1\<lparr>logged := logged s1 @ [''Recovered: '' @ p], wg := wg s,
               wg_hist := wg_hist s @ [wg s - 1, wg s], respawned := Suc (respawned s)\<rparr>
            = s1\<lparr>wg_hist := wg_hist s @ [wg s - 1, wg s],
                 logged := logged s1 @ [''Recovered: '' @ p],
                 respawned := Suc (respawned s)\<rparr>"
    using eq by (cases s1) simp
  have "runEntity ec (inc # incs) s =
          runEntity ec incs (s1\<lparr>logged := logged s1 @ [''Recovered: '' @ p], wg := wg s,
               wg_hist := wg_hist s @ [wg s - 1, wg s], respawned := Suc (respawned s)\<rparr>)"
    using assms eq by (simp add: WaitGroup_Done_def WaitGroup_Add_def Let_def)
  then show ?thesis using st by simp
qed

text \<open>A return: the counter goes down by one and nothing is respawned.\<close>

lemma runEntity_stop:
  assumes "runEntity_body ec inc s = (Returned, s1)" "0 < wg s"
  shows "runEntity ec (inc # incs) s = s1\<lparr>wg := wg s - 1, wg_hist := wg_hist s @ [wg s - 1]\<rparr>"
proof -
  from runEntity_body_wg[OF assms(1)] have eq: "wg s1 = wg s" "wg_hist s1 = wg_hist s"
    by simp_all
  show ?thesis using assms eq
    by (simp add: WaitGroup_Done_def WaitGroup_Add_def Let_def)
qed

text \<open>
  \<open>n\<close> crashes in a row and then the stop signal: the counter ends one below its start,
  \<open>n\<close> goroutines were respawned, and at every crash the counter passed through the
  value one below its start before it was raised again.
\<close>

lemma runEntity_crashes_then_stop:
  assumes "WeightedChoice (EntityActions ec) c = Inr action" "Item action = Func f"
    and "firstDelay now (ActionRate ec) raw = Inr delay" and "0 < wg s"
  shows "wg_hist (runEntity ec (replicate n (crash_inc now raw c p j) @ [stop_inc now raw]) s)
           = wg_hist s @ concat (replicate n [wg s - 1, wg s]) @ [wg s - 1]
         \<and> wg (runEntity ec (replicate n (crash_inc now raw c p j) @ [stop_inc now raw]) s)
           = wg s - 1
         \<and> respawned (runEntity ec (replicate n (crash_inc now raw c p j) @ [stop_inc now raw]) s)
           = respawned s + n"
  using assms(4)
proof (induction n arbitrary: s)
  case 0
  have b: "runEntity_body ec (stop_inc now raw) s = (Returned, s\<lparr>timers := timers s @ [delay]\<rparr>)"
    using assms(3) by (simp add: runEntity_body_def stop_inc_def)
  show ?case using runEntity_stop[OF b 0] by simp
next
  case (Suc n)
  let ?s1 = "s\<lparr>timers := timers s @ [delay], performed := performed s @ [f]\<rparr>"
  let ?s2 = "?s1\<lparr>wg_hist := wg_hist s @ [wg s - 1, wg s],
                  logged := logged ?s1 @ [''Recovered: '' @ p],
                  respawned := Suc (respawned s)\<rparr>"
  have b: "runEntity_body ec (crash_inc now raw c p j) s = (Panicked p, ?s1)"
    using assms(1,2,3) by (simp add: runEntity_body_def crash_inc_def)
  have step: "runEntity ec (replicate (Suc n) (crash_inc now raw c p j) @ [stop_inc now raw]) s
        = runEntity ec (replicate n (crash_inc now raw c p j) @ [stop_inc now raw]) ?s2"
    using runEntity_crash_cycle[OF b Suc.prems] by simp
  have "0 < wg ?s2" using Suc.prems by simp
  from Suc.IH[OF this] show ?case unfolding step by simp
qed

text \<open>
  Claim C1, at the failing input. One entity is outstanding (the counter is 1), its first
  action panics, and the respawned runner receives the stop signal. The values the
  counter takes are 0, 1, 0: the deferred \<open>Done\<close> of the crashing run brings the counter
  to zero before the recovering closure adds one for the respawned run.
\<close>

theorem runEntity_crash_counter_touches_zero:
  "wg_hist (runEntity
      \<lparr>EntityActions = [\<lparr>Weight = 1, Item = Func 0\<rparr>], ActionRate = 1000000000,
       ActionRateMaxVarianceMilliseconds = 100\<rparr>
      [\<lparr>now_ns = 17, start_raw = 3, events = [Fire 0 (Some ''boom'') 0]\<rparr>,
       \<lparr>now_ns = 20, start_raw = 1, events = [Stop]\<rparr>]
      \<lparr>wg = 1, wg_hist = [], logged = [], performed = [], timers = [], respawned = 0,
       fatal = None\<rparr>) = [0, 1, 0]"
  by (simp add: runEntity_body_def firstDelay_def firstStart_def intervalStart_def go_rem_def
        Int63n_def wrap64_def Time_Add_def Time_Before_def Time_Sub_def WeightedChoice_def
        total_weight_def WaitGroup_Done_def WaitGroup_Add_def Let_def)

section \<open>A failed weighted choice ends the runner\<close>

text \<open>
  Claim C10. Let the weighted action list be empty or of non-positive total weight, let
  the start of the body not panic, let the first wake-up be the timer, and let the
  counter be positive. Then the weighted choice fails with the selection error, and the
  runner returns for good: it has logged the failure, invoked no action, respawned
  nothing, and decremented the counter once.
\<close>

theorem runEntity_selection_error_terminates:
  assumes "EntityActions ec = [] \<or> total_weight (EntityActions ec) \<le> 0"
    and "firstDelay (now_ns inc) (ActionRate ec) (start_raw inc) = Inr delay"
    and "events inc = Fire choice_raw result jitter_raw # es"
    and "0 < wg s"
  shows "WeightedChoice (EntityActions ec) choice_raw = Inl SelectionError \<and>
         runEntity ec (inc # incs) s =
           s\<lparr>wg := wg s - 1, wg_hist := wg_hist s @ [wg s - 1],
             logged := logged s @ [''Failed to pick weighted choice''],
             timers := timers s @ [delay]\<rparr>"
proof -
  have w: "WeightedChoice (EntityActions ec) choice_raw = Inl SelectionError"
    using assms(1) by (auto simp: WeightedChoice_def)
  have b: "runEntity_body ec inc s =
            (Returned, s\<lparr>timers := timers s @ [delay],
                          logged := logged s @ [''Failed to pick weighted choice'']\<rparr>)"
    using assms(2,3) w by (simp add: runEntity_body_def)
  show ?thesis using w runEntity_stop[OF b assms(4)] by simp
qed

theorem runEntity_selection_error_terminates_witness:
  "WeightedChoice [] 0 = Inl SelectionError \<and>
   runEntity \<lparr>EntityActions = [], ActionRate = 5, ActionRateMaxVarianceMilliseconds = 2\<rparr>
     [\<lparr>now_ns = 17, start_raw = 3, events = [Fire 0 None 0, Stop]\<rparr>,
      \<lparr>now_ns = 30, start_raw = 0, events = [Stop]\<rparr>]
     \<lparr>wg = 1, wg_hist = [], logged = [], performed = [], timers = [], respawned = 0,
      fatal = None\<rparr>
   = \<lparr>wg = 0, wg_hist = [0], logged = [''Failed to pick weighted choice''], performed = [],
      timers = [1], respawned = 0, fatal = None\<rparr>"
  using runEntity_selection_error_terminates
    [of "\<lparr>EntityActions = [], ActionRate = 5, ActionRateMaxVarianceMilliseconds = 2\<rparr>"
        "\<lparr>now_ns = 17, start_raw = 3, events = [Fire 0 None 0, Stop]\<rparr>" 1 0 None 0 "[Stop]"
        "\<lparr>wg = 1, wg_hist = [], logged = [], performed = [], timers = [], respawned = 0,
          fatal = None\<rparr>"
        "[\<lparr>now_ns = 30, start_raw = 0, events = [Stop]\<rparr>]"]
  by (simp add: firstDelay_def firstStart_def intervalStart_def go_rem_def Int63n_def
        wrap64_def Time_Add_def Time_Before_def Time_Sub_def)

section \<open>The websocket listener\<close>

lemma ws_run_append: "ws_run (xs @ ys) s = ws_run ys (ws_run xs s)"
  by (induction xs arbitrary: s) simp_all

lemma ws_step_Finished: "pc s = Finished \<Longrightarrow> ws_step i s = s"
  by (simp add: ws_step_def)

lemma ws_run_Finished: "pc s = Finished \<Longrightarrow> ws_run ins s = s"
  by (induction ins arbitrary: s) (simp_all add: ws_step_Finished)

text \<open>While nothing but events arrives, the listener stays where it is.\<close>

lemma ws_run_listening:
  assumes "pc s = Listening" "\<forall>i \<in> set pre. event_chan i \<noteq> Closed \<and> \<not> stop_ready i"
  shows "ws_run pre s = s"
  using assms
proof (induction pre arbitrary: s)
  case Nil
  show ?case by simp
next
  case (Cons i pre)
  have "ws_step i s = s" using Cons.prems
    by (cases "event_chan i") (simp_all add: ws_step_def select_step_def)
  then show ?case using Cons by simp
qed

text \<open>
  An episode in which every attempt fails, entered with the counter at \<open>k\<close>: the attempts
  left are \<open>6 - k\<close>, with sleeps of \<open>k\<close> up to 5 seconds.
\<close>

lemma retry_all_fail:
  assumes "pc s = Reconnecting" "websocketRetryCount s = int k" "k \<le> 6"
    "\<forall>i \<in> set ins. connect_err i \<noteq> None" "length ins = 6 - k"
  shows "ws_run ins s = s\<lparr>websocketRetryCount := 6,
            slept := slept s @ map (\<lambda>n. int n * Second) [k..<6],
            connects := connects s @ replicate (6 - k) False\<rparr>"
  using assms
proof (induction ins arbitrary: s k)
  case Nil
  then show ?case by simp
next
  case (Cons i ins)
  from Cons.prems have k: "k < 6" by simp
  from Cons.prems obtain err where err: "connect_err i = Some err" by auto
  let ?s1 = "ws_step i s"
  have s1: "?s1 = s\<lparr>slept := slept s @ [int k * Second], connects := connects s @ [False],
                     websocketRetryCount := int (Suc k)\<rparr>"
    using Cons.prems(1,2) k err by (simp add: ws_step_def retry_step_def Let_def)
  have "ws_run ins ?s1 = ?s1\<lparr>websocketRetryCount := 6,
            slept := slept ?s1 @ map (\<lambda>n. int n * Second) [Suc k..<6],
            connects := connects ?s1 @ replicate (6 - Suc k) False\<rparr>"
    using Cons.prems k by (intro Cons.IH) (simp_all add: s1)
  moreover have "[k..<6] = k # [Suc k..<6]" using k by (simp add: upt_conv_Cons)
  moreover have "replicate (6 - k) False = False # replicate (6 - Suc k) False"
    using k by (metis Suc_diff_Suc replicate_Suc)
  ultimately show ?case by (simp add: s1)
qed

text \<open>The counter never goes down in a step, and it counts the failed connections.\<close>

lemma ws_step_count_mono: "websocketRetryCount s \<le> websocketRetryCount (ws_step i s)"
  by (cases "pc s")
     (auto simp: ws_step_def select_step_def retry_step_def ws_return_def Let_def
           split: chan_status.splits option.splits)

lemma ws_run_count_mono: "websocketRetryCount s \<le> websocketRetryCount (ws_run ins s)"
proof (induction ins arbitrary: s)
  case Nil
  show ?case by simp
next
  case (Cons i ins)
  have "websocketRetryCount s \<le> websocketRetryCount (ws_step i s)"
    by (rule ws_step_count_mono)
  also have "\<dots> \<le> websocketRetryCount (ws_run ins (ws_step i s))"
    by (rule Cons.IH)
  finally show ?case by simp
qed

lemma ws_step_count_failed:
  "websocketRetryCount s = failed_connects s \<Longrightarrow>
   websocketRetryCount (ws_step i s) = failed_connects (ws_step i s)"
  by (cases "pc s")
     (auto simp: ws_step_def select_step_def retry_step_def ws_return_def Let_def
           failed_connects_def
           split: chan_status.splits option.splits)

lemma ws_run_count_failed:
  "websocketRetryCount s = failed_connects s \<Longrightarrow>
   websocketRetryCount (ws_run ins s) = failed_connects (ws_run ins s)"
  by (induction ins arbitrary: s) (simp_all add: ws_step_count_failed)

lemma start_count_failed:
  "websocketRetryCount (websocketListen_start client)
     = failed_connects (websocketListen_start client)"
  by (simp add: websocketListen_start_def failed_connects_def)

text \<open>
  Claim C5. Over the life of the listening task the retry counter never decreases: after
  any further inputs it is at least what it was, and at every moment it equals the number
  of \<open>Connect()\<close> calls that have failed since the task started, whatever successful
  reconnects lie between them. So failures of distinct episodes add up towards the same
  threshold.
\<close>

theorem websocketRetryCount_never_reset:
  "websocketRetryCount (websocketListen client ins)
     \<le> websocketRetryCount (websocketListen client (ins @ later))
   \<and> websocketRetryCount (websocketListen client ins)
     = failed_connects (websocketListen client ins)"
proof -
  have "websocketRetryCount (websocketListen client ins)
          \<le> websocketRetryCount (ws_run later (websocketListen client ins))"
    by (rule ws_run_count_mono)
  moreover have "ws_run later (websocketListen client ins) = websocketListen client (ins @ later)"
    by (simp add: websocketListen_def ws_run_append)
  moreover have "websocketRetryCount (websocketListen client ins)
     = failed_connects (websocketListen client ins)"
    unfolding websocketListen_def by (rule ws_run_count_failed) (rule start_count_failed)
  ultimately show ?thesis by simp
qed

theorem websocketRetryCount_never_reset_witness:
  "websocketRetryCount (websocketListen True
      [channel_closed, connect_refused, connect_refused, connect_refused, connect_accepted]) = 3
   \<and> websocketListen True
      ([channel_closed, connect_refused, connect_refused, connect_refused, connect_accepted]
       @ [channel_closed, connect_refused, connect_refused, connect_refused, connect_refused]) =
     \<lparr>pc = Finished, websocketRetryCount = 6,
      slept = [0, 1000000000, 2000000000, 3000000000, 3000000000, 4000000000, 5000000000],
      connects = [False, False, False, True, False, False, False], listens = 2,
      ws_logged = [''Websocket Error: EOF'', ''Websocket disconneced. Max retries reached.''],
      done_calls = 1\<rparr>"
  using websocketRetryCount_never_reset
    [of True "[channel_closed, connect_refused, connect_refused, connect_refused, connect_accepted]"
        "[channel_closed, connect_refused, connect_refused, connect_refused, connect_refused]"]
  by (simp add: websocketListen_def websocketListen_start_def ws_step_def select_step_def
        retry_step_def ws_return_def channel_closed_def connect_refused_def
        connect_accepted_def Second_def)

text \<open>
  In every state the listener reaches, the counter is not negative, at most 5 while it
  listens, and at most 6 while it reconnects.
\<close>

lemma ws_step_bounds:
  assumes "0 \<le> websocketRetryCount s"
    "pc s = Listening \<longrightarrow> websocketRetryCount s \<le> 5"
    "pc s = Reconnecting \<longrightarrow> websocketRetryCount s \<le> 6"
  shows "0 \<le> websocketRetryCount (ws_step i s)
    \<and> (pc (ws_step i s) = Listening \<longrightarrow> websocketRetryCount (ws_step i s) \<le> 5)
    \<and> (pc (ws_step i s) = Reconnecting \<longrightarrow> websocketRetryCount (ws_step i s) \<le> 6)"
  using assms
  by (cases "pc s")
     (auto simp: ws_step_def select_step_def retry_step_def ws_return_def Let_def
           split: chan_status.splits option.splits)

lemma ws_run_bounds:
  assumes "0 \<le> websocketRetryCount s"
    "pc s = Listening \<longrightarrow> websocketRetryCount s \<le> 5"
    "pc s = Reconnecting \<longrightarrow> websocketRetryCount s \<le> 6"
  shows "0 \<le> websocketRetryCount (ws_run ins s)
    \<and> (pc (ws_run ins s) = Listening \<longrightarrow> websocketRetryCount (ws_run ins s) \<le> 5)
    \<and> (pc (ws_run ins s) = Reconnecting \<longrightarrow> websocketRetryCount (ws_run ins s) \<le> 6)"
  using assms
proof (induction ins arbitrary: s)
  case Nil
  then show ?case by simp
next
  case (Cons i ins)
  from ws_step_bounds[OF Cons.prems, of i]
  have "0 \<le> websocketRetryCount (ws_step i s)"
    "pc (ws_step i s) = Listening \<longrightarrow> websocketRetryCount (ws_step i s) \<le> 5"
    "pc (ws_step i s) = Reconnecting \<longrightarrow> websocketRetryCount (ws_step i s) \<le> 6"
    by simp_all
  from Cons.IH[OF this] show ?case by simp
qed

lemma websocketListen_listening_bounds:
  "pc (websocketListen client hist) = Listening \<Longrightarrow>
   0 \<le> websocketRetryCount (websocketListen client hist)
   \<and> websocketRetryCount (websocketListen client hist) \<le> 5"
  using ws_run_bounds[of "websocketListen_start client" hist]
  by (simp add: websocketListen_def websocketListen_start_def)

text \<open>
  An episode in which every attempt fails, entered from the listening loop with the
  counter at \<open>k\<close>.
\<close>

lemma episode_from:
  assumes listening: "pc s = Listening"
    and k: "websocketRetryCount s = int k" "k \<le> 5"
    and drop: "event_chan c = Closed" "\<not> (stop_ready c \<and> select_takes_stop c)"
    and fail: "\<forall>i \<in> set ins. connect_err i \<noteq> None"
    and len: "7 \<le> length ins"
  shows "ws_run (c # ins) s =
          s\<lparr>pc := Finished, websocketRetryCount := 6,
            slept := slept s @ map (\<lambda>n. int n * Second) [k..<6],
            connects := connects s @ replicate (6 - k) False,
            ws_logged := ws_logged s @ death_log (listen_error (ins ! (6 - k))),
            done_calls := Suc (done_calls s)\<rparr>"
proof -
  let ?s1 = "s\<lparr>pc := Reconnecting\<rparr>"
  have c: "ws_step c s = ?s1" using listening drop by (auto simp: ws_step_def select_step_def)
  have split: "ins = take (6 - k) ins @ (ins ! (6 - k)) # drop (Suc (6 - k)) ins"
    using len by (intro id_take_nth_drop) simp
  have t: "ws_run (take (6 - k) ins) ?s1 = ?s1\<lparr>websocketRetryCount := 6,
            slept := slept ?s1 @ map (\<lambda>n. int n * Second) [k..<6],
            connects := connects ?s1 @ replicate (6 - k) False\<rparr>"
    using fail len k by (intro retry_all_fail) (auto dest: in_set_takeD)
  let ?s2 = "ws_run (take (6 - k) ins) ?s1"
  let ?r = "s\<lparr>pc := Finished, websocketRetryCount := 6,
            slept := slept s @ map (\<lambda>n. int n * Second) [k..<6],
            connects := connects s @ replicate (6 - k) False,
            ws_logged := ws_logged s @ death_log (listen_error (ins ! (6 - k))),
            done_calls := Suc (done_calls s)\<rparr>"
  have d: "ws_step (ins ! (6 - k)) ?s2 = ?r"
    unfolding t by (cases s) (simp add: ws_step_def retry_step_def ws_return_def death_log_def)
  have "ws_run (c # ins) s = ws_run ins ?s1" by (simp add: c)
  also have "\<dots> = ws_run (drop (Suc (6 - k)) ins) (ws_step (ins ! (6 - k)) ?s2)"
    by (subst split) (simp add: ws_run_append)
  also have "\<dots> = ws_step (ins ! (6 - k)) ?s2"
    by (rule ws_run_Finished) (simp add: d)
  finally show ?thesis using d by simp
qed

text \<open>
  Claim C4 as stated fails. A first episode has two refused connections and then an
  accepted one; the event channel closes again and every connection is refused. This
  second episode makes four attempts, not six, and its first attempt comes after a sleep
  of two seconds, not at once.
\<close>

theorem websocketListen_second_episode_four_attempts:
  "connects (websocketListen True
      [channel_closed, connect_refused, connect_refused, connect_accepted]) = [False, False, True]
   \<and> pc (websocketListen True
      [channel_closed, connect_refused, connect_refused, connect_accepted]) = Listening
   \<and> connects (websocketListen True
      [channel_closed, connect_refused, connect_refused, connect_accepted,
       channel_closed, connect_refused, connect_refused, connect_refused, connect_refused,
       connect_refused, connect_refused, connect_refused])
     = [False, False, True, False, False, False, False]
   \<and> slept (websocketListen True
      [channel_closed, connect_refused, connect_refused, connect_accepted,
       channel_closed, connect_refused, connect_refused, connect_refused, connect_refused,
       connect_refused, connect_refused, connect_refused])
     = [0, 1000000000, 2000000000, 2000000000, 3000000000, 4000000000, 5000000000]
   \<and> pc (websocketListen True
      [channel_closed, connect_refused, connect_refused, connect_accepted,
       channel_closed, connect_refused, connect_refused, connect_refused, connect_refused,
       connect_refused, connect_refused, connect_refused]) = Finished"
  by (simp add: websocketListen_def websocketListen_start_def ws_step_def select_step_def
        retry_step_def ws_return_def channel_closed_def connect_refused_def
        connect_accepted_def Second_def)

text \<open>
  Claim C4, amended. The listener is listening after any history, with \<open>k\<close> failed
  connections since it started (\<open>k\<close> is at most 5, and 0 for a fresh listener). The event
  channel is found closed and from then on every \<open>Connect()\<close> fails, for at least seven
  passes of the retry loop. Then the listener makes exactly \<open>6 - k\<close> further attempts, after
  sleeps of \<open>k\<close> up to 5 seconds, logs the listen error (or that the server closed the
  socket) and that the retries are used up, and returns; nothing else changes.
\<close>

theorem websocketListen_all_fail_episode:
  assumes listening: "pc (websocketListen True hist) = Listening"
    and drop: "event_chan c = Closed" "\<not> (stop_ready c \<and> select_takes_stop c)"
    and fail: "\<forall>i \<in> set ins. connect_err i \<noteq> None"
    and len: "7 \<le> length ins"
  shows "\<exists>k\<le>5. failed_connects (websocketListen True hist) = int k
      \<and> websocketListen True (hist @ c # ins) =
          (websocketListen True hist)
            \<lparr>pc := Finished, websocketRetryCount := 6,
             slept := slept (websocketListen True hist) @ map (\<lambda>n. int n * Second) [k..<6],
             connects := connects (websocketListen True hist) @ replicate (6 - k) False,
             ws_logged := ws_logged (websocketListen True hist)
                          @ death_log (listen_error (ins ! (6 - k))),
             done_calls := Suc (done_calls (websocketListen True hist))\<rparr>"
proof -
  let ?s = "websocketListen True hist"
  define k where "k = nat (websocketRetryCount ?s)"
  from websocketListen_listening_bounds[OF listening]
  have k: "websocketRetryCount ?s = int k" "k \<le> 5" unfolding k_def by linarith+
  have f: "failed_connects ?s = int k"
    using k(1) ws_run_count_failed[OF start_count_failed, of hist True]
    by (simp add: websocketListen_def)
  have "websocketListen True (hist @ c # ins) = ws_run (c # ins) ?s"
    by (simp add: websocketListen_def ws_run_append)
  also note episode_from[OF listening k drop fail len]
  finally show ?thesis using k(2) f by blast
qed

theorem websocketListen_all_fail_episode_witness:
  "websocketListen True (channel_closed # replicate 8 connect_refused) =
     \<lparr>pc = Finished, websocketRetryCount = 6,
      slept = [0, 1000000000, 2000000000, 3000000000, 4000000000, 5000000000],
      connects = [False, False, False, False, False, False], listens = 1,
      ws_logged = [''Websocket Error: EOF'', ''Websocket disconneced. Max retries reached.''],
      done_calls = 1\<rparr>
  \<and> websocketListen True
      ([channel_closed, connect_refused, connect_refused, connect_accepted]
       @ channel_closed # replicate 7 connect_refused) =
     \<lparr>pc = Finished, websocketRetryCount = 6,
      slept = [0, 1000000000, 2000000000, 2000000000, 3000000000, 4000000000, 5000000000],
      connects = [False, False, True, False, False, False, False], listens = 2,
      ws_logged = [''Websocket Error: EOF'', ''Websocket disconneced. Max retries reached.''],
      done_calls = 1\<rparr>"
  using websocketListen_all_fail_episode [of "[]" channel_closed "replicate 8 connect_refused"]
    websocketListen_all_fail_episode [of "[channel_closed, connect_refused, connect_refused, connect_accepted]"
       channel_closed "replicate 7 connect_refused"]
  by (simp add: websocketListen_def websocketListen_start_def ws_step_def select_step_def
        retry_step_def ws_return_def channel_closed_def connect_refused_def
        connect_accepted_def Second_def death_log_def numeral_eq_Suc)

text \<open>
  Claim C3 as stated fails. The event channel is found closed, and the stop signal is
  raised while the listener is in the retry loop with every connection refused: after the
  first pass the listener is still reconnecting, and it goes on to make all six
  attempts, sleeping 0 to 5 seconds, before it returns.
\<close>

theorem websocketListen_retry_loop_ignores_stop:
  "pc (websocketListen True [channel_closed, stop_raised_connect_refused]) = Reconnecting
   \<and> connects (websocketListen True
        [channel_closed, stop_raised_connect_refused, stop_raised_connect_refused,
         stop_raised_connect_refused, stop_raised_connect_refused, stop_raised_connect_refused,
         stop_raised_connect_refused]) = [False, False, False, False, False, False]
   \<and> slept (websocketListen True
        [channel_closed, stop_raised_connect_refused, stop_raised_connect_refused,
         stop_raised_connect_refused, stop_raised_connect_refused, stop_raised_connect_refused,
         stop_raised_connect_refused])
       = [0, 1000000000, 2000000000, 3000000000, 4000000000, 5000000000]"
  by (simp add: websocketListen_def websocketListen_start_def ws_step_def select_step_def
        retry_step_def ws_return_def channel_closed_def stop_raised_connect_refused_def
        Second_def)

text \<open>
  Claim C3, amended. The stop signal is checked at the \<open>select\<close> of the listening loop
  only: if the listener is there, the stop signal is raised, and the \<open>select\<close> takes the
  stop case (no event is ready, or the random choice falls on it), the task returns at
  once, without sleeping or connecting. A pass through the retry loop does the same
  whether or not the stop signal is raised.
\<close>

theorem websocketListen_stop_checked_at_select_only:
  "(pc s = Listening \<and> stop_ready i \<and> (event_chan i = NoEvent \<or> select_takes_stop i)
      \<longrightarrow> ws_step i s = s\<lparr>pc := Finished, done_calls := Suc (done_calls s)\<rparr>)
   \<and> (pc s = Reconnecting \<longrightarrow> ws_step (i\<lparr>stop_ready := b\<rparr>) s = ws_step i s)"
  by (simp add: ws_step_def select_step_def retry_step_def ws_return_def)

theorem websocketListen_stop_checked_at_select_only_witness:
  "pc (websocketListen_start True) = Listening
   \<and> stop_ready stop_raised_connect_refused
   \<and> event_chan stop_raised_connect_refused = NoEvent
   \<and> ws_step stop_raised_connect_refused (websocketListen_start True)
       = (websocketListen_start True)\<lparr>pc := Finished, done_calls := 1\<rparr>
   \<and> pc (ws_step channel_closed (websocketListen_start True)) = Reconnecting
   \<and> ws_step (stop_raised_connect_refused\<lparr>stop_ready := False\<rparr>)
         (ws_step channel_closed (websocketListen_start True))
       = ws_step stop_raised_connect_refused
           (ws_step channel_closed (websocketListen_start True))"
  using websocketListen_stop_checked_at_select_only
      [of "websocketListen_start True" stop_raised_connect_refused False]
    websocketListen_stop_checked_at_select_only
      [of "ws_step channel_closed (websocketListen_start True)" stop_raised_connect_refused False]
  by (simp add: websocketListen_start_def stop_raised_connect_refused_def channel_closed_def
        ws_step_def select_step_def)

section \<open>The coordination run\<close>

text \<open>
  Claim C2, at the failing input. Discovery returns an empty list of worker pods with a nil
  error, or a non-empty list of worker pods and then an empty list of target pods with a
  nil error. \<open>Loadtest\<close> runs nothing, neither the bulk load nor any worker, but the
  error it returns is nil: \<open>errors.Wrap\<close> of a nil error is nil.
\<close>

theorem Loadtest_empty_discovery_returns_nil:
  "Loadtest \<lparr>WorkingDirectory = d, LoadtestInstancesAddrs = ([], None),
             AppInstancesAddrs = a\<rparr> env mirror = (None, [])
   \<and> Loadtest \<lparr>WorkingDirectory = d, LoadtestInstancesAddrs = (w # ws, None),
               AppInstancesAddrs = ([], None)\<rparr> env mirror = (None, [])"
  by (simp add: Loadtest_def errors_Wrap_def)

theorem Loadtest_empty_discovery_returns_nil_witness:
  "Loadtest \<lparr>WorkingDirectory = ''/work'', LoadtestInstancesAddrs = ([], None),
             AppInstancesAddrs = ([''app0''], None)\<rparr> all_succeed True = (None, [])
   \<and> Loadtest \<lparr>WorkingDirectory = ''/work'', LoadtestInstancesAddrs = ([''w0'', ''w1''], None),
               AppInstancesAddrs = ([], None)\<rparr> all_succeed True = (None, [])"
  using Loadtest_empty_discovery_returns_nil
    [of "''/work''" "([''app0''], None)" all_succeed True "''w0''" "[''w1'']"]
  by simp

text \<open>When discovery itself reports an error, the run fails with it and does nothing.\<close>

lemma Loadtest_discovery_error:
  "LoadtestInstancesAddrs c = (ws, Some e) \<Longrightarrow>
   Loadtest c env mirror = (Some (Wrapped e ''unable to get loadtest pods''), [])"
  by (simp add: Loadtest_def errors_Wrap_def)

text \<open>What the fan-out starts and executes.\<close>

lemma started_append: "started (xs @ ys) = started xs @ started ys"
  by (induction xs rule: started.induct) simp_all

lemma started_loadtestPod: "started (snd (loadtestPod c env pod m)) = []"
  by (simp add: loadtestPod_def Let_def split: option.splits)

lemma started_fan_out: "started (fan_out c env mirror i pods) = pods"
proof (induction pods arbitrary: i)
  case Nil
  show ?case by simp
next
  case (Cons pod pods)
  obtain err effs where l: "loadtestPod c env pod (i = 0 \<and> mirror) = (err, effs)"
    by (cases "loadtestPod c env pod (i = 0 \<and> mirror)")
  have "started effs = []"
    using started_loadtestPod[of c env pod "i = 0 \<and> mirror"] l by simp
  then show ?case using Cons l by (simp add: started_append split: option.splits)
qed

lemma exec_loadtestPod:
  "Exec cmd \<in> set (snd (loadtestPod c env pod m)) \<Longrightarrow>
   cmd = [''kubectl'', ''exec'', pod, ''./bin/loadtest'', ''all'']"
  by (auto simp: loadtestPod_def Let_def split: option.splits)

lemma exec_fan_out:
  "Exec cmd \<in> set (fan_out c env mirror i pods) \<Longrightarrow>
   \<exists>pod \<in> set pods. cmd = [''kubectl'', ''exec'', pod, ''./bin/loadtest'', ''all'']"
proof (induction pods arbitrary: i)
  case Nil
  then show ?case by simp
next
  case (Cons pod pods)
  obtain err effs where l: "loadtestPod c env pod (i = 0 \<and> mirror) = (err, effs)"
    by (cases "loadtestPod c env pod (i = 0 \<and> mirror)")
  from Cons.prems l
  have "Exec cmd \<in> set effs \<or> Exec cmd \<in> set (fan_out c env mirror (Suc i) pods)"
    by (auto split: option.splits)
  then show ?case
  proof
    assume "Exec cmd \<in> set effs"
    then show ?thesis using exec_loadtestPod[of cmd c env pod "i = 0 \<and> mirror"] l by simp
  next
    assume "Exec cmd \<in> set (fan_out c env mirror (Suc i) pods)"
    from Cons.IH[OF this] show ?thesis by auto
  qed
qed

lemma bulk_not_in_fan_out:
  "cmd \<in> set (bulk_cmds c w a) \<Longrightarrow> Exec cmd \<notin> set (fan_out c env mirror i pods)"
proof
  assume b: "cmd \<in> set (bulk_cmds c w a)"
    and "Exec cmd \<in> set (fan_out c env mirror i pods)"
  then obtain pod where "cmd = [''kubectl'', ''exec'', pod, ''./bin/loadtest'', ''all'']"
    using exec_fan_out by blast
  with b show False
    by (auto simp: bulk_cmds_def genbulkload_cmd_def copy_out_cmd_def copy_in_cmd_def
          import_cmd_def)
qed

text \<open>
  Claim C6. Discovery succeeds with the workers \<open>w # ws\<close> and the targets \<open>a # as\<close>.
  The bulk load consists of four command lines: \<open>kubectl exec\<close> of \<open>genbulkload\<close> on the
  first worker; \<open>kubectl cp\<close> of the bulk file from that worker to the working directory;
  \<open>kubectl cp\<close> of the file from the working directory to the first target; \<open>kubectl exec\<close>
  of the bulk import on that target with 64 workers. The run begins with them in this
  order. If one of them fails, the run stops there with that error (the import error
  wrapped with the command output), nothing after the failing command is executed and no
  worker is started. If all four succeed, they are followed by the fan-out, which starts
  one goroutine per worker in order, executes only \<open>kubectl exec pod ./bin/loadtest all\<close>
  for worker pods, and executes none of the four bulk commands again.
\<close>

theorem Loadtest_bulk_staging_before_fan_out:
  assumes "LoadtestInstancesAddrs c = (w # ws, None)" "AppInstancesAddrs c = (a # as, None)"
  shows
   "genbulkload_cmd w = [''kubectl'', ''exec'', w, ''./bin/loadtest'', ''genbulkload'']
  \<and> copy_out_cmd c w =
       [''kubectl'', ''cp'', w @ '':/mattermost-load-test/loadtestbulkload.json'',
        WorkingDirectory c]
  \<and> copy_in_cmd c a =
       [''kubectl'', ''cp'', filepath_Join [WorkingDirectory c, ''loadtestbulkload.json''],
        a @ '':/mattermost/'']
  \<and> import_cmd a = [''kubectl'', ''exec'', a, ''--'', ''./bin/platform'', ''import'',
        ''bulk'', ''--workers'', ''64'', ''--apply'', ''./loadtestbulkload.json'']
  \<and> (snd (run_cmd env (genbulkload_cmd w)) = Some e \<longrightarrow>
       Loadtest c env mirror = (Some e, [Exec (genbulkload_cmd w)]))
  \<and> (snd (run_cmd env (genbulkload_cmd w)) = None
      \<and> snd (run_cmd env (copy_out_cmd c w)) = Some e \<longrightarrow>
       Loadtest c env mirror = (Some e, [Exec (genbulkload_cmd w), Exec (copy_out_cmd c w)]))
  \<and> (snd (run_cmd env (genbulkload_cmd w)) = None
      \<and> snd (run_cmd env (copy_out_cmd c w)) = None
      \<and> snd (run_cmd env (copy_in_cmd c a)) = Some e \<longrightarrow>
       Loadtest c env mirror =
         (Some e, [Exec (genbulkload_cmd w), Exec (copy_out_cmd c w), Exec (copy_in_cmd c a)]))
  \<and> (snd (run_cmd env (genbulkload_cmd w)) = None
      \<and> snd (run_cmd env (copy_out_cmd c w)) = None
      \<and> snd (run_cmd env (copy_in_cmd c a)) = None
      \<and> run_cmd env (import_cmd a) = (out, Some e) \<longrightarrow>
       Loadtest c env mirror =
         (Some (Wrapped e (''bulk import failed: '' @ out)),
          [Exec (genbulkload_cmd w), Exec (copy_out_cmd c w), Exec (copy_in_cmd c a),
           Exec (import_cmd a)]))
  \<and> (snd (run_cmd env (genbulkload_cmd w)) = None
      \<and> snd (run_cmd env (copy_out_cmd c w)) = None
      \<and> snd (run_cmd env (copy_in_cmd c a)) = None
      \<and> snd (run_cmd env (import_cmd a)) = None \<longrightarrow>
       Loadtest c env mirror =
         (None,
          [Exec (genbulkload_cmd w), Exec (copy_out_cmd c w), Exec (copy_in_cmd c a),
           Exec (import_cmd a)] @ fan_out c env mirror 0 (w # ws)))
  \<and> started (fan_out c env mirror 0 (w # ws)) = w # ws
  \<and> (\<forall>cmd. Exec cmd \<in> set (fan_out c env mirror 0 (w # ws)) \<longrightarrow>
        (\<exists>pod \<in> set (w # ws). cmd = [''kubectl'', ''exec'', pod, ''./bin/loadtest'', ''all'']))
  \<and> Exec (genbulkload_cmd w) \<notin> set (fan_out c env mirror 0 (w # ws))
  \<and> Exec (copy_out_cmd c w) \<notin> set (fan_out c env mirror 0 (w # ws))
  \<and> Exec (copy_in_cmd c a) \<notin> set (fan_out c env mirror 0 (w # ws))
  \<and> Exec (import_cmd a) \<notin> set (fan_out c env mirror 0 (w # ws))"
proof -
  have L: "Loadtest c env mirror =
     (case bulkLoad c env w a of
        (Some err, effects) \<Rightarrow> (Some err, effects)
      | (None, effects) \<Rightarrow> (None, effects @ fan_out c env mirror 0 (w # ws)))"
    using assms by (simp add: Loadtest_def)
  have p1: "genbulkload_cmd w = [''kubectl'', ''exec'', w, ''./bin/loadtest'', ''genbulkload'']"
    by (simp add: genbulkload_cmd_def)
  have p2: "copy_out_cmd c w =
       [''kubectl'', ''cp'', w @ '':/mattermost-load-test/loadtestbulkload.json'',
        WorkingDirectory c]"
    by (simp add: copy_out_cmd_def)
  have p3: "copy_in_cmd c a =
       [''kubectl'', ''cp'', filepath_Join [WorkingDirectory c, ''loadtestbulkload.json''],
        a @ '':/mattermost/'']"
    by (simp add: copy_in_cmd_def)
  have p4: "import_cmd a = [''kubectl'', ''exec'', a, ''--'', ''./bin/platform'', ''import'',
        ''bulk'', ''--workers'', ''64'', ''--apply'', ''./loadtestbulkload.json'']"
    by (simp add: import_cmd_def)
  have 1: "snd (run_cmd env (genbulkload_cmd w)) = Some e \<Longrightarrow>
       Loadtest c env mirror = (Some e, [Exec (genbulkload_cmd w)])"
    unfolding L by (simp add: bulkLoad_def)
  have 2: "snd (run_cmd env (genbulkload_cmd w)) = None
      \<and> snd (run_cmd env (copy_out_cmd c w)) = Some e \<Longrightarrow>
       Loadtest c env mirror = (Some e, [Exec (genbulkload_cmd w), Exec (copy_out_cmd c w)])"
    unfolding L by (simp add: bulkLoad_def)
  have 3: "snd (run_cmd env (genbulkload_cmd w)) = None
      \<and> snd (run_cmd env (copy_out_cmd c w)) = None
      \<and> snd (run_cmd env (copy_in_cmd c a)) = Some e \<Longrightarrow>
       Loadtest c env mirror =
         (Some e, [Exec (genbulkload_cmd w), Exec (copy_out_cmd c w), Exec (copy_in_cmd c a)])"
    unfolding L by (simp add: bulkLoad_def)
  have 4: "snd (run_cmd env (genbulkload_cmd w)) = None
      \<and> snd (run_cmd env (copy_out_cmd c w)) = None
      \<and> snd (run_cmd env (copy_in_cmd c a)) = None
      \<and> run_cmd env (import_cmd a) = (out, Some e) \<Longrightarrow>
       Loadtest c env mirror =
         (Some (Wrapped e (''bulk import failed: '' @ out)),
          [Exec (genbulkload_cmd w), Exec (copy_out_cmd c w), Exec (copy_in_cmd c a),
           Exec (import_cmd a)])"
    unfolding L by (simp add: bulkLoad_def errors_Wrap_def)
  have 5: "snd (run_cmd env (genbulkload_cmd w)) = None
      \<and> snd (run_cmd env (copy_out_cmd c w)) = None
      \<and> snd (run_cmd env (copy_in_cmd c a)) = None
      \<and> snd (run_cmd env (import_cmd a)) = None \<Longrightarrow>
       Loadtest c env mirror =
         (None,
          [Exec (genbulkload_cmd w), Exec (copy_out_cmd c w), Exec (copy_in_cmd c a),
           Exec (import_cmd a)] @ fan_out c env mirror 0 (w # ws))"
  proof -
    assume ok: "snd (run_cmd env (genbulkload_cmd w)) = None
      \<and> snd (run_cmd env (copy_out_cmd c w)) = None
      \<and> snd (run_cmd env (copy_in_cmd c a)) = None
      \<and> snd (run_cmd env (import_cmd a)) = None"
    obtain out' where i: "run_cmd env (import_cmd a) = (out', None)"
      using ok by (cases "run_cmd env (import_cmd a)") simp
    have "bulkLoad c env w a =
        (None, [Exec (genbulkload_cmd w), Exec (copy_out_cmd c w), Exec (copy_in_cmd c a),
           Exec (import_cmd a)])"
      using ok i by (simp add: bulkLoad_def)
    then show ?thesis unfolding L by simp
  qed
  have 6: "started (fan_out c env mirror 0 (w # ws)) = w # ws" by (rule started_fan_out)
  have 7: "\<forall>cmd. Exec cmd \<in> set (fan_out c env mirror 0 (w # ws)) \<longrightarrow>
        (\<exists>pod \<in> set (w # ws). cmd = [''kubectl'', ''exec'', pod, ''./bin/loadtest'', ''all''])"
    using exec_fan_out by blast
  have b: "\<And>cmd. cmd \<in> set (bulk_cmds c w a) \<Longrightarrow>
      Exec cmd \<notin> set (fan_out c env mirror 0 (w # ws))"
    by (rule bulk_not_in_fan_out)
  have 8: "Exec (genbulkload_cmd w) \<notin> set (fan_out c env mirror 0 (w # ws))"
    by (rule b) (simp add: bulk_cmds_def)
  have 9: "Exec (copy_out_cmd c w) \<notin> set (fan_out c env mirror 0 (w # ws))"
    by (rule b) (simp add: bulk_cmds_def)
  have 10: "Exec (copy_in_cmd c a) \<notin> set (fan_out c env mirror 0 (w # ws))"
    by (rule b) (simp add: bulk_cmds_def)
  have 11: "Exec (import_cmd a) \<notin> set (fan_out c env mirror 0 (w # ws))"
    by (rule b) (simp add: bulk_cmds_def)
  from p1 p2 p3 p4 1 2 3 4 5 6 7 8 9 10 11 show ?thesis by blast
qed

theorem Loadtest_bulk_staging_before_fan_out_witness:
  "Loadtest three_workers all_succeed True =
     (None,
      [Exec [''kubectl'', ''exec'', ''w0'', ''./bin/loadtest'', ''genbulkload''],
       Exec [''kubectl'', ''cp'', ''w0:/mattermost-load-test/loadtestbulkload.json'',
             ''/work/''],
       Exec [''kubectl'', ''cp'', ''/work/loadtestbulkload.json'', ''app0:/mattermost/''],
       Exec [''kubectl'', ''exec'', ''app0'', ''--'', ''./bin/platform'', ''import'', ''bulk'',
             ''--workers'', ''64'', ''--apply'', ''./loadtestbulkload.json''],
       Go ''w0'' True, MkdirAll ''/work/results'',
       Create ''/work/results/loadtest-out-w0.txt'',
       Exec [''kubectl'', ''exec'', ''w0'', ''./bin/loadtest'', ''all''],
       Sleep 10000000000,
       Go ''w1'' False, MkdirAll ''/work/results'',
       Create ''/work/results/loadtest-out-w1.txt'',
       Exec [''kubectl'', ''exec'', ''w1'', ''./bin/loadtest'', ''all''],
       Sleep 10000000000,
       Go ''w2'' False, MkdirAll ''/work/results'',
       Create ''/work/results/loadtest-out-w2.txt'',
       Exec [''kubectl'', ''exec'', ''w2'', ''./bin/loadtest'', ''all''],
       Sleep 10000000000])
   \<and> Loadtest three_workers copy_out_fails True =
       (Some (Err ''exit status 1''),
        [Exec [''kubectl'', ''exec'', ''w0'', ''./bin/loadtest'', ''genbulkload''],
         Exec [''kubectl'', ''cp'', ''w0:/mattermost-load-test/loadtestbulkload.json'',
               ''/work/'']])"
  using Loadtest_bulk_staging_before_fan_out [of three_workers "''w0''" "[''w1'', ''w2'']" "''app0''" "[]" all_succeed
          "Err ''exit status 1''" True "[]"]
    Loadtest_bulk_staging_before_fan_out [of three_workers "''w0''" "[''w1'', ''w2'']" "''app0''" "[]" copy_out_fails
          "Err ''exit status 1''" True "[]"]
  by (simp add: three_workers_def all_succeed_def copy_out_fails_def genbulkload_cmd_def
        copy_out_cmd_def copy_in_cmd_def import_cmd_def loadtestPod_def Let_def
        filepath_Join_def filepath_Dir_def filepath_Clean_def Second_def)

end
